theory Spec2Isabelle
  imports Complex_Main "HOL-Library.Word"
begin

unbundle bit_operations_syntax

section \<open>Metadata bytes and hash decomposition (namespace detail)\<close>

text \<open>
  \<^verbatim>\<open>metadata_t\<close> is \<^verbatim>\<open>uint8_t\<close>; a hash is a \<^verbatim>\<open>size_t\<close>, taken as 64 bits wide.
  Counters and indices (\<^verbatim>\<open>size_t\<close> as well) are natural numbers: they count slots of
  an allocated array and stay far below \<open>2 ^ 64\<close>; the one place where the source can
  wrap around, the decrement of \<^verbatim>\<open>size_\<close> in \<^verbatim>\<open>erase(iterator)\<close>, writes the
  wrap-around out.
\<close>

type_synonym metadata_t = "8 word"

definition Empty :: metadata_t where
  "Empty = 0x80"

definition Deleted :: metadata_t where
  "Deleted = 0xFF"

definition IsFree :: "metadata_t \<Rightarrow> bool" where
  "IsFree metadata = (metadata \<ge> 0x80)"

definition H1 :: "64 word \<Rightarrow> 64 word" where
  "H1 hash = drop_bit 7 hash"

definition H2 :: "64 word \<Rightarrow> metadata_t" where
  "H2 hash = ucast (hash AND 0x7F)"

section \<open>Outcomes\<close>

text \<open>
  A call either returns, or throws \<^verbatim>\<open>std::out_of_range\<close> (\<open>KeyNotFound\<close>), or runs
  into undefined behaviour of C++ (an integer modulo by zero, an index outside an array,
  a read of a slot that was never constructed); each of these is an \<open>error\<close> value.
  The two probe loops are \<^verbatim>\<open>while (true)\<close> loops: a call that never returns has the
  outcome \<open>None\<close>.
\<close>

datatype error = KeyNotFound | DivideByZero | IndexOutOfRange | UninitializedSlot

type_synonym 'a outcome = "(error + 'a) option"

definition returns :: "'a \<Rightarrow> 'a outcome" where
  "returns x = Some (Inr x)"

definition fails :: "error \<Rightarrow> 'a outcome" where
  "fails e = Some (Inl e)"

definition lift :: "error + 'a \<Rightarrow> 'a outcome" where
  "lift r = Some r"

definition and_then :: "'a outcome \<Rightarrow> ('a \<Rightarrow> 'b outcome) \<Rightarrow> 'b outcome" where
  "and_then m f = (case m of None \<Rightarrow> None | Some (Inl e) \<Rightarrow> Some (Inl e) | Some (Inr x) \<Rightarrow> f x)"

section \<open>Raw slot storage (FixedUninitVec)\<close>

text \<open>
  A block of \<^verbatim>\<open>size_\<close> cells that are neither constructed nor destructed by the vector:
  a cell is \<open>None\<close> until the owner constructs a value in it. A vector that was moved
  from keeps its \<^verbatim>\<open>size_\<close> (the implicit move copies the integer) and loses its block.
\<close>

record 'a FixedUninitVec =
  vec_size :: nat
  vec_data :: "'a option list"

definition FixedUninitVec_init :: "nat \<Rightarrow> 'a FixedUninitVec" where
  "FixedUninitVec_init n = \<lparr>vec_size = n, vec_data = replicate n None\<rparr>"

definition vec_moved_from :: "'a FixedUninitVec \<Rightarrow> 'a FixedUninitVec" where
  "vec_moved_from v = v\<lparr>vec_data := []\<rparr>"

definition vec_at :: "'a FixedUninitVec \<Rightarrow> nat \<Rightarrow> error + 'a" where
  "vec_at v n =
     (if n < vec_size v \<and> n < length (vec_data v) then
        (case vec_data v ! n of None \<Rightarrow> Inl UninitializedSlot | Some x \<Rightarrow> Inr x)
      else Inl IndexOutOfRange)"

definition vec_construct :: "'a FixedUninitVec \<Rightarrow> nat \<Rightarrow> 'a \<Rightarrow> error + 'a FixedUninitVec" where
  "vec_construct v n x =
     (if n < vec_size v \<and> n < length (vec_data v) then
        Inr (v\<lparr>vec_data := (vec_data v)[n := Some x]\<rparr>)
      else Inl IndexOutOfRange)"

definition vec_destroy :: "'a FixedUninitVec \<Rightarrow> nat \<Rightarrow> error + 'a FixedUninitVec" where
  "vec_destroy v n =
     (if n < vec_size v \<and> n < length (vec_data v) then
        (case vec_data v ! n of
           None \<Rightarrow> Inl UninitializedSlot
         | Some x \<Rightarrow> Inr (v\<lparr>vec_data := (vec_data v)[n := None]\<rparr>))
      else Inl IndexOutOfRange)"

section \<open>The hash table\<close>

record ('k, 'v) Slot =
  slot_key :: 'k
  slot_value :: 'v

record ('k, 'v) HashMap =
  capacity_f :: nat
  size_f :: nat
  metadata_f :: "metadata_t list"
  slots_f :: "('k, 'v) Slot FixedUninitVec"
  deletedCount_f :: nat

record InsertionLoc =
  loc_idex :: nat
  loc_h2 :: nat

definition DefaultInitialCapacity :: nat where
  "DefaultInitialCapacity = 16"

text \<open>
  \<^verbatim>\<open>float\<close> values: the quotient of two counters is exact as a rational, and an IEEE
  division by zero gives NaN for \<open>0 / 0\<close> and infinity otherwise. Rounding to single
  precision is monotone and \<open>0.875\<close> and \<open>0.5\<close> are floats, so for counters below
  \<open>2 ^ 22\<close> the comparisons of the source agree with the exact ones written here.
\<close>

datatype float_t = NaN | PosInf | Finite rat

definition float_div :: "nat \<Rightarrow> nat \<Rightarrow> float_t" where
  "float_div a b =
     (if b = 0 then (if a = 0 then NaN else PosInf) else Finite (of_nat a / of_nat b))"

fun float_ge :: "float_t \<Rightarrow> rat \<Rightarrow> bool" where
  "float_ge NaN r = False"
| "float_ge PosInf r = True"
| "float_ge (Finite q) r = (q \<ge> r)"

definition MaxLoadFactor :: rat where
  "MaxLoadFactor = 875 / 1000"

definition MaxDeletedLoadFactor :: rat where
  "MaxDeletedLoadFactor = 5 / 10"

definition HashMap_init :: "nat \<Rightarrow> ('k, 'v) HashMap" where
  "HashMap_init initialCapacity =
     \<lparr>capacity_f = initialCapacity, size_f = 0,
      metadata_f = replicate initialCapacity Empty,
      slots_f = FixedUninitVec_init initialCapacity,
      deletedCount_f = 0\<rparr>"

definition HashMap_default :: "('k, 'v) HashMap" where
  "HashMap_default = HashMap_init DefaultInitialCapacity"

text \<open>
  The move constructor and the move assignment: the destination takes every field of
  \<open>other\<close>; \<open>other\<close> keeps a zero capacity, size and tombstone count, an empty metadata
  vector and a slot vector without its block. Both return the destination and the
  source as it is left.
\<close>

definition moved_from :: "('k, 'v) HashMap \<Rightarrow> ('k, 'v) HashMap" where
  "moved_from other =
     other\<lparr>capacity_f := 0, size_f := 0, metadata_f := [],
           slots_f := vec_moved_from (slots_f other), deletedCount_f := 0\<rparr>"

definition move_construct :: "('k, 'v) HashMap \<Rightarrow> ('k, 'v) HashMap \<times> ('k, 'v) HashMap" where
  "move_construct other = (other, moved_from other)"

definition move_assign ::
  "('k, 'v) HashMap \<Rightarrow> ('k, 'v) HashMap \<Rightarrow> ('k, 'v) HashMap \<times> ('k, 'v) HashMap" where
  "move_assign this other = (other, moved_from other)"

definition size_of :: "('k, 'v) HashMap \<Rightarrow> nat" where
  "size_of t = size_f t"

definition is_empty :: "('k, 'v) HashMap \<Rightarrow> bool" where
  "is_empty t = (size_f t = 0)"

text \<open>An iterator is its index \<^verbatim>\<open>idex_\<close>; \<^verbatim>\<open>end()\<close> is the index \<^verbatim>\<open>slots_.size()\<close>.\<close>

definition begin_it :: "('k, 'v) HashMap \<Rightarrow> nat" where
  "begin_it t = 0"

definition end_it :: "('k, 'v) HashMap \<Rightarrow> nat" where
  "end_it t = vec_size (slots_f t)"

definition iteratorAt :: "('k, 'v) HashMap \<Rightarrow> nat option \<Rightarrow> nat" where
  "iteratorAt t maybeIdex = (case maybeIdex of Some idex \<Rightarrow> idex | None \<Rightarrow> end_it t)"

definition loadFactor :: "('k, 'v) HashMap \<Rightarrow> float_t" where
  "loadFactor t = float_div (size_f t) (capacity_f t)"

definition needToGrowForInsert :: "('k, 'v) HashMap \<Rightarrow> bool" where
  "needToGrowForInsert t = (float_ge (loadFactor t) MaxLoadFactor \<or> size_f t = capacity_f t)"

definition needRehash :: "('k, 'v) HashMap \<Rightarrow> bool" where
  "needRehash t = (of_nat (deletedCount_f t) \<ge> of_nat (size_f t) * MaxDeletedLoadFactor)"

text \<open>The test \<^verbatim>\<open>eq(key, this->slots_[idex].key)\<close>.\<close>

definition key_equals_at ::
  "('k \<Rightarrow> 'k \<Rightarrow> bool) \<Rightarrow> ('k, 'v) HashMap \<Rightarrow> 'k \<Rightarrow> nat \<Rightarrow> error + bool" where
  "key_equals_at eq t key idex =
     (case vec_at (slots_f t) idex of Inl e \<Rightarrow> Inl e | Inr s \<Rightarrow> Inr (eq key (slot_key s)))"

partial_function (option) locationForInsertion_loop ::
  "('k \<Rightarrow> 'k \<Rightarrow> bool) \<Rightarrow> ('k, 'v) HashMap \<Rightarrow> 'k \<Rightarrow> metadata_t \<Rightarrow> nat
     \<Rightarrow> (error + InsertionLoc option) option" where
  "locationForInsertion_loop eq t key h2 idex =
     (if idex < length (metadata_f t) then
        (let metadata = metadata_f t ! idex in
         if IsFree metadata then Some (Inr (Some \<lparr>loc_idex = idex, loc_h2 = unat h2\<rparr>))
         else
           (case (if metadata = h2 then key_equals_at eq t key idex else Inr False) of
              Inl e \<Rightarrow> Some (Inl e)
            | Inr found \<Rightarrow>
                if found then Some (Inr None)
                else locationForInsertion_loop eq t key h2 ((idex + 1) mod capacity_f t)))
      else Some (Inl IndexOutOfRange))"

definition locationForInsertion ::
  "('k \<Rightarrow> 64 word) \<Rightarrow> ('k \<Rightarrow> 'k \<Rightarrow> bool) \<Rightarrow> ('k, 'v) HashMap \<Rightarrow> 'k \<Rightarrow> InsertionLoc option outcome" where
  "locationForInsertion hasher eq t key =
     (let hash = hasher key; h1 = H1 hash; h2 = H2 hash in
      if capacity_f t = 0 then fails DivideByZero
      else locationForInsertion_loop eq t key h2 (unat h1 mod capacity_f t))"

text \<open>
  The three overloads of \<^verbatim>\<open>insertUnchecked\<close> (a pair by reference, a pair by rvalue, a
  slot by rvalue) differ in copying or moving the key and the value, not in what the
  table holds afterwards.
\<close>

definition insertUnchecked ::
  "('k \<Rightarrow> 64 word) \<Rightarrow> ('k \<Rightarrow> 'k \<Rightarrow> bool) \<Rightarrow> ('k, 'v) HashMap \<Rightarrow> ('k, 'v) Slot
     \<Rightarrow> (nat option \<times> ('k, 'v) HashMap) outcome" where
  "insertUnchecked hasher eq t slot =
     and_then (locationForInsertion hasher eq t (slot_key slot)) (\<lambda>loc.
       case loc of
         None \<Rightarrow> returns (None, t)
       | Some l \<Rightarrow>
           (if loc_idex l < length (metadata_f t) then
              (case vec_construct (slots_f t) (loc_idex l) slot of
                 Inl e \<Rightarrow> fails e
               | Inr slots' \<Rightarrow>
                   returns (Some (loc_idex l),
                     t\<lparr>metadata_f := (metadata_f t)[loc_idex l := word_of_nat (loc_h2 l)],
                       slots_f := slots',
                       size_f := size_f t + 1\<rparr>))
            else fails IndexOutOfRange))"

definition deleteSlot :: "('k, 'v) HashMap \<Rightarrow> nat \<Rightarrow> error + ('k, 'v) HashMap" where
  "deleteSlot t idex =
     (if idex < length (metadata_f t) then
        (case vec_destroy (slots_f t) idex of
           Inl e \<Rightarrow> Inl e
         | Inr slots' \<Rightarrow>
             Inr (t\<lparr>metadata_f := (metadata_f t)[idex := Deleted],
                    deletedCount_f := deletedCount_f t + 1,
                    slots_f := slots'\<rparr>))
      else Inl IndexOutOfRange)"

partial_function (option) doFind_loop ::
  "('k \<Rightarrow> 'k \<Rightarrow> bool) \<Rightarrow> ('k, 'v) HashMap \<Rightarrow> 'k \<Rightarrow> metadata_t \<Rightarrow> nat
     \<Rightarrow> (error + nat option) option" where
  "doFind_loop eq t key h2 idex =
     (if idex < length (metadata_f t) then
        (let metadata = metadata_f t ! idex in
         case (if metadata = h2 then key_equals_at eq t key idex else Inr False) of
           Inl e \<Rightarrow> Some (Inl e)
         | Inr found \<Rightarrow>
             if found then Some (Inr (Some idex))
             else if metadata = Empty then Some (Inr None)
             else doFind_loop eq t key h2 ((idex + 1) mod capacity_f t))
      else Some (Inl IndexOutOfRange))"

definition doFind ::
  "('k \<Rightarrow> 64 word) \<Rightarrow> ('k \<Rightarrow> 'k \<Rightarrow> bool) \<Rightarrow> ('k, 'v) HashMap \<Rightarrow> 'k \<Rightarrow> nat option outcome" where
  "doFind hasher eq t key =
     (let hash = hasher key; h1 = H1 hash; h2 = H2 hash in
      if capacity_f t = 0 then fails DivideByZero
      else doFind_loop eq t key h2 (unat h1 mod capacity_f t))"

text \<open>
  The loop of \<^verbatim>\<open>growAndRehash\<close> and \<^verbatim>\<open>rehashEverything\<close>, over the indices
  \<open>0 ..< capacity_f\<close> of the old table: every slot that is not free is inserted into
  \<open>newTable\<close>, and the result of \<^verbatim>\<open>insertUnchecked\<close> is dropped.
\<close>

fun rehash_loop ::
  "('k \<Rightarrow> 64 word) \<Rightarrow> ('k \<Rightarrow> 'k \<Rightarrow> bool) \<Rightarrow> ('k, 'v) HashMap \<Rightarrow> nat list \<Rightarrow> ('k, 'v) HashMap
     \<Rightarrow> ('k, 'v) HashMap outcome" where
  "rehash_loop hasher eq t [] newTable = returns newTable"
| "rehash_loop hasher eq t (i # rest) newTable =
     (if i < length (metadata_f t) then
        (if \<not> IsFree (metadata_f t ! i) then
           (case vec_at (slots_f t) i of
              Inl e \<Rightarrow> fails e
            | Inr slot \<Rightarrow>
                and_then (insertUnchecked hasher eq newTable slot) (\<lambda>r.
                  rehash_loop hasher eq t rest (snd r)))
         else rehash_loop hasher eq t rest newTable)
      else fails IndexOutOfRange)"

definition growAndRehash_to ::
  "('k \<Rightarrow> 64 word) \<Rightarrow> ('k \<Rightarrow> 'k \<Rightarrow> bool) \<Rightarrow> ('k, 'v) HashMap \<Rightarrow> nat \<Rightarrow> ('k, 'v) HashMap outcome" where
  "growAndRehash_to hasher eq t newCapacity =
     (if newCapacity \<le> capacity_f t then returns t
      else
        and_then
          (if \<not> is_empty t then rehash_loop hasher eq t [0 ..< capacity_f t] (HashMap_init newCapacity)
           else returns (HashMap_init newCapacity))
          (\<lambda>newTable. returns (fst (move_assign t newTable))))"

definition growAndRehash ::
  "('k \<Rightarrow> 64 word) \<Rightarrow> ('k \<Rightarrow> 'k \<Rightarrow> bool) \<Rightarrow> ('k, 'v) HashMap \<Rightarrow> ('k, 'v) HashMap outcome" where
  "growAndRehash hasher eq t =
     (let newCapacity = (if capacity_f t = 0 then DefaultInitialCapacity else capacity_f t * 2)
      in growAndRehash_to hasher eq t newCapacity)"

definition rehashEverything ::
  "('k \<Rightarrow> 64 word) \<Rightarrow> ('k \<Rightarrow> 'k \<Rightarrow> bool) \<Rightarrow> ('k, 'v) HashMap \<Rightarrow> ('k, 'v) HashMap outcome" where
  "rehashEverything hasher eq t =
     (if is_empty t then returns t
      else
        and_then (rehash_loop hasher eq t [0 ..< capacity_f t] (HashMap_init (capacity_f t)))
          (\<lambda>newTable. returns (fst (move_assign t newTable))))"

subsection \<open>The public operations\<close>

definition find_key ::
  "('k \<Rightarrow> 64 word) \<Rightarrow> ('k \<Rightarrow> 'k \<Rightarrow> bool) \<Rightarrow> ('k, 'v) HashMap \<Rightarrow> 'k \<Rightarrow> nat outcome" where
  "find_key hasher eq t key = and_then (doFind hasher eq t key) (\<lambda>res. returns (iteratorAt t res))"

definition at_key ::
  "('k \<Rightarrow> 64 word) \<Rightarrow> ('k \<Rightarrow> 'k \<Rightarrow> bool) \<Rightarrow> ('k, 'v) HashMap \<Rightarrow> 'k \<Rightarrow> 'v outcome" where
  "at_key hasher eq t key =
     and_then (doFind hasher eq t key) (\<lambda>res.
       case res of
         Some idex \<Rightarrow> (case vec_at (slots_f t) idex of Inl e \<Rightarrow> fails e | Inr s \<Rightarrow> returns (slot_value s))
       | None \<Rightarrow> fails KeyNotFound)"

text \<open>
  \<^verbatim>\<open>insert\<close> returns \<^verbatim>\<open>std::optional<iterator>\<close> built from
  \<^verbatim>\<open>iteratorAt(std::optional<size_t>)\<close>, which is an iterator (\<^verbatim>\<open>end()\<close> when nothing
  was inserted): the optional it returns always holds a value.
\<close>

definition insert_pair ::
  "('k \<Rightarrow> 64 word) \<Rightarrow> ('k \<Rightarrow> 'k \<Rightarrow> bool) \<Rightarrow> ('k, 'v) HashMap \<Rightarrow> 'k \<Rightarrow> 'v
     \<Rightarrow> (nat option \<times> ('k, 'v) HashMap) outcome" where
  "insert_pair hasher eq t key v =
     and_then (if needToGrowForInsert t then growAndRehash hasher eq t else returns t) (\<lambda>t1.
       and_then (insertUnchecked hasher eq t1 \<lparr>slot_key = key, slot_value = v\<rparr>) (\<lambda>r.
         returns (Some (iteratorAt (snd r) (fst r)), snd r)))"

definition size_t_decrement :: "nat \<Rightarrow> nat" where
  "size_t_decrement n = (if n = 0 then 2 ^ 64 - 1 else n - 1)"

definition erase_it ::
  "('k \<Rightarrow> 64 word) \<Rightarrow> ('k \<Rightarrow> 'k \<Rightarrow> bool) \<Rightarrow> ('k, 'v) HashMap \<Rightarrow> nat \<Rightarrow> (bool \<times> ('k, 'v) HashMap) outcome" where
  "erase_it hasher eq t it =
     (if it = end_it t then returns (False, t)
      else
        (case deleteSlot t it of
           Inl e \<Rightarrow> fails e
         | Inr t1 \<Rightarrow>
             (let t2 = t1\<lparr>size_f := size_t_decrement (size_f t1)\<rparr> in
              and_then (if needRehash t2 then rehashEverything hasher eq t2 else returns t2) (\<lambda>t3.
                returns (True, t3)))))"

definition erase ::
  "('k \<Rightarrow> 64 word) \<Rightarrow> ('k \<Rightarrow> 'k \<Rightarrow> bool) \<Rightarrow> ('k, 'v) HashMap \<Rightarrow> 'k \<Rightarrow> (bool \<times> ('k, 'v) HashMap) outcome" where
  "erase hasher eq t key = and_then (find_key hasher eq t key) (\<lambda>it. erase_it hasher eq t it)"

fun clear_loop :: "('k, 'v) HashMap \<Rightarrow> nat list \<Rightarrow> error + ('k, 'v) HashMap" where
  "clear_loop t [] = Inr t"
| "clear_loop t (i # rest) =
     (if i < length (metadata_f t) then
        (case (if \<not> IsFree (metadata_f t ! i) then vec_destroy (slots_f t) i else Inr (slots_f t)) of
           Inl e \<Rightarrow> Inl e
         | Inr slots' \<Rightarrow>
             clear_loop (t\<lparr>metadata_f := (metadata_f t)[i := Empty], slots_f := slots'\<rparr>) rest)
      else Inl IndexOutOfRange)"

definition clear :: "('k, 'v) HashMap \<Rightarrow> error + ('k, 'v) HashMap" where
  "clear t =
     (if is_empty t then Inr t
      else
        (case clear_loop t [0 ..< capacity_f t] of
           Inl e \<Rightarrow> Inl e
         | Inr t1 \<Rightarrow> Inr (t1\<lparr>size_f := 0, deletedCount_f := 0\<rparr>)))"

definition reserve ::
  "('k \<Rightarrow> 64 word) \<Rightarrow> ('k \<Rightarrow> 'k \<Rightarrow> bool) \<Rightarrow> ('k, 'v) HashMap \<Rightarrow> nat \<Rightarrow> ('k, 'v) HashMap outcome" where
  "reserve hasher eq t n = (if capacity_f t \<ge> n then returns t else growAndRehash_to hasher eq t n)"

text \<open>
  The simpler variant of the table (\<^verbatim>\<open>src/HashMap.hpp\<close>, without the tombstone count)
  decides on growth from the load factor the table would have with one element more:
  its \<^verbatim>\<open>needToGrowForInsert\<close> calls \<^verbatim>\<open>loadFactor(1)\<close>.
\<close>

definition loadFactor_extra :: "('k, 'v) HashMap \<Rightarrow> nat \<Rightarrow> float_t" where
  "loadFactor_extra t extra = float_div (size_f t + extra) (capacity_f t)"

definition needToGrowForInsert_simpler_variant :: "('k, 'v) HashMap \<Rightarrow> bool" where
  "needToGrowForInsert_simpler_variant t =
     (float_ge (loadFactor_extra t 1) MaxLoadFactor \<or> size_f t = capacity_f t)"

section \<open>Client programs\<close>

text \<open>
  A client holds one table and calls its public operations in sequence; \<open>MoveFrom\<close>
  stands for the table being the source of a move (into another table, which the
  sequence does not follow). A call that fails or does not return ends the run with that
  outcome.
\<close>

datatype ('k, 'v) operation = Insert 'k 'v | Erase 'k | Clear | Reserve nat | MoveFrom

fun apply_operation ::
  "('k \<Rightarrow> 64 word) \<Rightarrow> ('k \<Rightarrow> 'k \<Rightarrow> bool) \<Rightarrow> ('k, 'v) HashMap \<Rightarrow> ('k, 'v) operation
     \<Rightarrow> ('k, 'v) HashMap outcome" where
  "apply_operation hasher eq t (Insert key v) =
     and_then (insert_pair hasher eq t key v) (\<lambda>r. returns (snd r))"
| "apply_operation hasher eq t (Erase key) =
     and_then (erase hasher eq t key) (\<lambda>r. returns (snd r))"
| "apply_operation hasher eq t Clear = lift (clear t)"
| "apply_operation hasher eq t (Reserve n) = reserve hasher eq t n"
| "apply_operation hasher eq t MoveFrom = returns (snd (move_construct t))"

fun run ::
  "('k \<Rightarrow> 64 word) \<Rightarrow> ('k \<Rightarrow> 'k \<Rightarrow> bool) \<Rightarrow> ('k, 'v) HashMap \<Rightarrow> ('k, 'v) operation list
     \<Rightarrow> ('k, 'v) HashMap outcome" where
  "run hasher eq t [] = returns t"
| "run hasher eq t (x # xs) = and_then (apply_operation hasher eq t x) (\<lambda>t1. run hasher eq t1 xs)"

text \<open>The slots a table holds live values in, in index order.\<close>

definition live_slots :: "('k, 'v) HashMap \<Rightarrow> ('k, 'v) Slot list" where
  "live_slots t =
     List.map_filter (\<lambda>(m, c). if IsFree m then None else c)
       (zip (metadata_f t) (vec_data (slots_f t)))"

text \<open>
  The hash of the concrete runs below: keys are numbers and hash to themselves, as
  \<^verbatim>\<open>std::hash\<close> of an integer does in libstdc++ and libc++; keys are compared with
  \<^verbatim>\<open>std::equal_to\<close>.
\<close>

definition hash_id :: "nat \<Rightarrow> 64 word" where
  "hash_id k = word_of_nat k"

text \<open>The default table after \<^verbatim>\<open>insert({1, "abc"})\<close> and \<^verbatim>\<open>insert({2, "def"})\<close>.\<close>

definition two_entries :: "(nat, string) HashMap" where
  "two_entries =
     \<lparr>capacity_f = 16, size_f = 2,
      metadata_f = [1, 2] @ replicate 14 Empty,
      slots_f = \<lparr>vec_size = 16,
        vec_data = [Some \<lparr>slot_key = 1, slot_value = ''abc''\<rparr>,
                    Some \<lparr>slot_key = 2, slot_value = ''def''\<rparr>] @ replicate 14 None\<rparr>,
      deletedCount_f = 0\<rparr>"

text \<open>The default table after the inserts of the keys 0, 1 and 2.\<close>

definition three_entries :: "(nat, string) HashMap" where
  "three_entries =
     \<lparr>capacity_f = 16, size_f = 3,
      metadata_f = [0, 1, 2] @ replicate 13 Empty,
      slots_f = \<lparr>vec_size = 16,
        vec_data = [Some \<lparr>slot_key = 0, slot_value = ''zero''\<rparr>,
                    Some \<lparr>slot_key = 1, slot_value = ''abc''\<rparr>,
                    Some \<lparr>slot_key = 2, slot_value = ''def''\<rparr>] @ replicate 13 None\<rparr>,
      deletedCount_f = 0\<rparr>"

declare doFind_loop.simps [code]

declare locationForInsertion_loop.simps [code]

section \<open>Outcomes of sequenced calls\<close>

lemma and_then_returnsD:
  assumes "and_then m (\<lambda>t. returns (f t)) = returns y"
  shows "\<exists>t. m = Some (Inr t) \<and> f t = y"
  using assms by (auto simp: and_then_def returns_def split: option.splits sum.splits)

section \<open>A probe that never returns\<close>

text \<open>
  \<^verbatim>\<open>doFind\<close> leaves its loop at a slot whose metadata byte is the key's \<open>h2\<close> (and whose
  key is equal) or is \<open>Empty\<close>. In a table whose metadata holds neither byte the loop
  walks the slots round and round: a call that returns would contradict this.
\<close>

lemma doFind_loop_returns_needs_exit:
  assumes "doFind_loop eq t key h2 idex = Some y"
  shows "\<not> (Empty \<notin> set (metadata_f t) \<and> h2 \<notin> set (metadata_f t)
            \<and> capacity_f t = length (metadata_f t) \<and> idex < length (metadata_f t))"
proof (rule doFind_loop.raw_induct
    [where P = "\<lambda>eq t key h2 idex y. \<not> (Empty \<notin> set (metadata_f t) \<and> h2 \<notin> set (metadata_f t)
            \<and> capacity_f t = length (metadata_f t) \<and> idex < length (metadata_f t))", OF _ assms],
    goal_cases)
  case (1 loop eq t key h2 idex y)
  show ?case
  proof
    assume a: "Empty \<notin> set (metadata_f t) \<and> h2 \<notin> set (metadata_f t)
            \<and> capacity_f t = length (metadata_f t) \<and> idex < length (metadata_f t)"
    then have m: "metadata_f t ! idex \<in> set (metadata_f t)" by simp
    with a have ne: "metadata_f t ! idex \<noteq> h2" "metadata_f t ! idex \<noteq> Empty"
      by metis+
    from a have "0 < length (metadata_f t)" by auto
    with a have nxt: "(idex + 1) mod capacity_f t < length (metadata_f t)" by simp
    from 1(2) a ne have "loop eq t key h2 ((idex + 1) mod capacity_f t) = Some y"
      by (simp add: Let_def)
    from 1(1)[OF this] a nxt show False by simp
  qed
qed

lemma doFind_loop_diverges:
  assumes "Empty \<notin> set (metadata_f t)" "h2 \<notin> set (metadata_f t)"
    "capacity_f t = length (metadata_f t)" "idex < length (metadata_f t)"
  shows "doFind_loop eq t key h2 idex = None"
proof (cases "doFind_loop eq t key h2 idex")
  case None then show ?thesis .
next
  case (Some y)
  from doFind_loop_returns_needs_exit[OF this] assms show ?thesis by simp
qed

lemma find_key_never_returns:
  assumes "Empty \<notin> set (metadata_f t)" "H2 (hasher key) \<notin> set (metadata_f t)"
    "capacity_f t = length (metadata_f t)" "0 < capacity_f t"
  shows "find_key hasher eq t key = None"
proof -
  have "unat (H1 (hasher key)) mod capacity_f t < length (metadata_f t)"
    using assms(3,4) by simp
  from doFind_loop_diverges[OF assms(1,2,3) this] assms(4) show ?thesis
    by (simp add: find_key_def doFind_def Let_def and_then_def)
qed

section \<open>Rebuilding a table leaves no tombstone count\<close>

lemma insertUnchecked_deletedCount:
  assumes "insertUnchecked hasher eq t slot = Some (Inr r)"
  shows "deletedCount_f (snd r) = deletedCount_f t"
  using assms
  by (auto simp: insertUnchecked_def and_then_def returns_def fails_def
      split: option.splits sum.splits if_splits)

lemma rehash_loop_deletedCount:
  assumes "rehash_loop hasher eq t idxs newTable = Some (Inr newTable')"
  shows "deletedCount_f newTable' = deletedCount_f newTable"
  using assms
proof (induction idxs arbitrary: newTable)
  case Nil
  then show ?case by (simp add: returns_def)
next
  case (Cons i rest)
  show ?case
  proof (cases "i < length (metadata_f t) \<and> \<not> IsFree (metadata_f t ! i)")
    case True
    with Cons.prems obtain slot r where
      ins: "insertUnchecked hasher eq newTable slot = Some (Inr r)"
      and rest: "rehash_loop hasher eq t rest (snd r) = Some (Inr newTable')"
      by (auto simp: and_then_def fails_def split: sum.splits option.splits)
    from Cons.IH[OF rest] insertUnchecked_deletedCount[OF ins] show ?thesis by simp
  next
    case False
    with Cons.prems have "rehash_loop hasher eq t rest newTable = Some (Inr newTable')"
      by (auto simp: fails_def split: if_splits)
    from Cons.IH[OF this] show ?thesis .
  qed
qed

lemma rehashEverything_deletedCount:
  assumes "rehashEverything hasher eq t = Some (Inr t')" "size_f t' \<noteq> 0"
  shows "deletedCount_f t' = 0"
proof (cases "is_empty t")
  case True
  with assms show ?thesis by (simp add: rehashEverything_def returns_def is_empty_def)
next
  case False
  with assms(1) obtain newTable where
    "rehash_loop hasher eq t [0 ..< capacity_f t] (HashMap_init (capacity_f t)) = Some (Inr newTable)"
    and "t' = newTable"
    by (auto simp: rehashEverything_def and_then_def returns_def move_assign_def
        split: option.splits sum.splits)
  with rehash_loop_deletedCount[of hasher eq t _ _ newTable] show ?thesis
    by (simp add: HashMap_init_def)
qed

lemma erase_it_tombstone_bound:
  assumes "erase_it hasher eq t it = Some (Inr (True, t'))" "size_f t' \<noteq> 0"
  shows "of_nat (deletedCount_f t') < of_nat (size_f t') * MaxDeletedLoadFactor"
proof -
  from assms(1) obtain t1 where d: "deleteSlot t it = Inr t1"
    by (auto simp: erase_it_def returns_def fails_def split: if_splits sum.splits)
  define t2 where "t2 = t1\<lparr>size_f := size_t_decrement (size_f t1)\<rparr>"
  show ?thesis
  proof (cases "needRehash t2")
    case True
    with assms(1) d have "rehashEverything hasher eq t2 = Some (Inr t')"
      by (auto simp: erase_it_def returns_def fails_def and_then_def Let_def t2_def
          split: if_splits sum.splits option.splits)
    from rehashEverything_deletedCount[OF this assms(2)] assms(2) show ?thesis
      by (simp add: MaxDeletedLoadFactor_def)
  next
    case False
    with assms(1) d have "t' = t2"
      by (auto simp: erase_it_def returns_def fails_def and_then_def Let_def t2_def
          split: if_splits sum.splits option.splits)
    with False show ?thesis by (simp add: needRehash_def)
  qed
qed

lemma erase_is_erase_it:
  assumes "erase hasher eq t key = Some (Inr r)"
  shows "\<exists>it. erase_it hasher eq t it = Some (Inr r)"
  using assms
  by (auto simp: erase_def and_then_def split: option.splits sum.splits)

section \<open>A fresh table and the first insertion\<close>

lemma insertUnchecked_fresh:
  fixes hasher :: "'k \<Rightarrow> 64 word" and slot :: "('k, 'v) Slot"
  assumes "0 < n"
  defines "idex \<equiv> unat (H1 (hasher (slot_key slot))) mod n"
  shows "insertUnchecked hasher eq (HashMap_init n) slot =
     returns (Some idex,
       \<lparr>capacity_f = n, size_f = 1,
        metadata_f = (replicate n Empty)[idex := H2 (hasher (slot_key slot))],
        slots_f = \<lparr>vec_size = n, vec_data = (replicate n None)[idex := Some slot]\<rparr>,
        deletedCount_f = 0\<rparr>)"
proof -
  have lt: "idex < n" using assms by simp
  have loop: "locationForInsertion_loop eq (HashMap_init n) (slot_key slot) (H2 (hasher (slot_key slot))) idex
      = Some (Inr (Some \<lparr>loc_idex = idex, loc_h2 = unat (H2 (hasher (slot_key slot)))\<rparr>))"
    using lt
    by (subst locationForInsertion_loop.simps)
       (simp add: HashMap_init_def IsFree_def Empty_def)
  have loc: "locationForInsertion hasher eq (HashMap_init n) (slot_key slot)
      = Some (Inr (Some \<lparr>loc_idex = idex, loc_h2 = unat (H2 (hasher (slot_key slot)))\<rparr>))"
    using assms(1) loop
    by (simp add: locationForInsertion_def Let_def idex_def HashMap_init_def)
  show ?thesis
    unfolding insertUnchecked_def loc
    using lt
    by (simp add: and_then_def returns_def vec_construct_def
        HashMap_init_def FixedUninitVec_init_def)
qed

lemma doFind_after_fresh_insert:
  fixes hasher :: "'k \<Rightarrow> 64 word" and slot :: "('k, 'v) Slot"
  assumes "0 < n" "eq (slot_key slot) (slot_key slot)"
  defines "idex \<equiv> unat (H1 (hasher (slot_key slot))) mod n"
  defines "t' \<equiv> \<lparr>capacity_f = n, size_f = 1,
        metadata_f = (replicate n Empty)[idex := H2 (hasher (slot_key slot))],
        slots_f = \<lparr>vec_size = n, vec_data = (replicate n None)[idex := Some slot]\<rparr>,
        deletedCount_f = 0\<rparr>"
  shows "doFind hasher eq t' (slot_key slot) = returns (Some idex)"
proof -
  have lt: "idex < n" using assms by simp
  have "doFind_loop eq t' (slot_key slot) (H2 (hasher (slot_key slot))) idex = Some (Inr (Some idex))"
    using lt assms(2)
    by (subst doFind_loop.simps)
       (simp add: t'_def key_equals_at_def vec_at_def)
  then show ?thesis
    using assms(1)
    by (simp add: doFind_def Let_def returns_def t'_def idex_def)
qed

lemma growAndRehash_from_zero:
  assumes "capacity_f t = 0" "size_f t = 0"
  shows "growAndRehash hasher eq t = returns (HashMap_init DefaultInitialCapacity)"
  using assms
  by (simp add: growAndRehash_def growAndRehash_to_def DefaultInitialCapacity_def is_empty_def
      and_then_def returns_def move_assign_def)

lemma needToGrowForInsert_zero:
  assumes "capacity_f t = 0" "size_f t = 0"
  shows "needToGrowForInsert t"
  using assms by (simp add: needToGrowForInsert_def)

section \<open>The claims\<close>

text \<open>
  In the runs below the keys 0, 1, 2 and 3 hash to bucket 0 of the default table (16
  slots) and fill the slots 0 to 3 in this order; a key \<open>128 * i\<close> hashes to bucket \<open>i\<close>,
  and the keys 1920 and 1921 to bucket 15.
\<close>

text \<open>
  C1. The claim: in every state the public operations reach, no two live slots hold equal
  keys, and an insert of a live key never makes a second live slot for it, wherever
  tombstones lie on the key's probe sequence.
  The code at \<^verbatim>\<open>insert 0, 1, 2, 3; erase(0); insert({1, "e"})\<close> on the default table:
  the erase leaves a tombstone in slot 0, in front of key 1 in slot 1;
  \<^verbatim>\<open>locationForInsertion\<close> returns the first free slot before it has seen key 1, and
  the insert constructs a second slot with key 1. Before the insert the live keys are
  1, 2, 3; after it they are 1, 1, 2, 3.
\<close>

theorem insert_behind_tombstone_duplicates_key:
  "and_then (run hash_id (=) HashMap_default
       [Insert 0 ''a'', Insert 1 ''b'', Insert 2 ''c'', Insert 3 ''d'', Erase 0])
     (\<lambda>t. and_then (insert_pair hash_id (=) t 1 ''e'')
       (\<lambda>r. returns (map slot_key (live_slots t), map slot_key (live_slots (snd r)),
                distinct (map slot_key (live_slots (snd r))))))
   = returns ([1, 2, 3], [1, 1, 2, 3], False)"
  by code_simp

text \<open>
  C2. The claim: in every state the public operations reach, \<^verbatim>\<open>find\<close> returns for every
  key, because the metadata always keeps an \<open>Empty\<close> byte.
  The code on the default table after sixteen rounds of \<^verbatim>\<open>insert(128 * i)\<close>,
  \<^verbatim>\<open>erase(128 * i)\<close>, for \<open>i\<close> from 0 to 15: every erase empties the table, so
  \<^verbatim>\<open>rehashEverything\<close> returns at once and the tombstone stays; after the sixteenth all
  sixteen metadata bytes are \<open>Deleted\<close>, and \<^verbatim>\<open>find(7)\<close> never returns.
  And on a table of capacity 4 (the table of the test \<^verbatim>\<open>AutoGrow\<close>) after the inserts of
  the keys 1 to 4: the table grows only when size and capacity are equal before an
  insert, the four keys fill it, and \<^verbatim>\<open>find(5)\<close> never returns.
\<close>

theorem find_never_returns_in_full_table:
  "and_then (run hash_id (=) HashMap_default
       (concat (map (\<lambda>i. [Insert (128 * i) ''v'', Erase (128 * i)]) [0 ..< 16])))
     (\<lambda>t. find_key hash_id (=) t 7) = None
   \<and> and_then (run hash_id (=) (HashMap_init 4)
         [Insert 1 ''123'', Insert 2 ''123'', Insert 3 ''123'', Insert 4 ''123''])
       (\<lambda>t. find_key hash_id (=) t 5) = None"
proof -
  let ?churn = "concat (map (\<lambda>i. [Insert (128 * i) ''v'', Erase (128 * i)]) [0 ..< 16])
    :: (nat, string) operation list"
  let ?fill = "[Insert 1 ''123'', Insert 2 ''123'', Insert 3 ''123'', Insert 4 ''123'']
    :: (nat, string) operation list"
  have "and_then (run hash_id (=) HashMap_default ?churn)
          (\<lambda>t. returns (capacity_f t, size_f t, metadata_f t))
        = returns (16, 0, replicate 16 Deleted)"
    by code_simp
  from and_then_returnsD[OF this]
  obtain t where r: "run hash_id (=) HashMap_default ?churn = Some (Inr t)"
    and c: "capacity_f t = 16" and m: "metadata_f t = replicate 16 Deleted"
    by blast
  have "find_key hash_id (=) t 7 = None"
    by (rule find_key_never_returns)
       (simp_all add: c m Empty_def Deleted_def H2_def hash_id_def)
  then have churn: "and_then (run hash_id (=) HashMap_default ?churn)
      (\<lambda>t. find_key hash_id (=) t 7) = None"
    unfolding r by (simp add: and_then_def)
  have "and_then (run hash_id (=) (HashMap_init 4) ?fill)
          (\<lambda>t. returns (capacity_f t, size_f t, metadata_f t))
        = returns (4, 4, [1, 2, 3, 4])"
    by code_simp
  from and_then_returnsD[OF this]
  obtain u where r': "run hash_id (=) (HashMap_init 4) ?fill = Some (Inr u)"
    and c': "capacity_f u = 4" and m': "metadata_f u = [1, 2, 3, 4]"
    by blast
  have "find_key hash_id (=) u 5 = None"
    by (rule find_key_never_returns)
       (simp_all add: c' m' Empty_def H2_def hash_id_def)
  then have fill: "and_then (run hash_id (=) (HashMap_init 4) ?fill)
      (\<lambda>t. find_key hash_id (=) t 5) = None"
    unfolding r' by (simp add: and_then_def)
  from churn fill show ?thesis by (rule conjI)
qed

text \<open>
  C3. The claim: growth keeps every association and the size.
  The code at \<^verbatim>\<open>insert 1920, 1921, 2, 3; erase(1920); insert({1921, "e"}); reserve(32)\<close>
  on the default table: key 1921 first sits in slot 0 (its bucket 15 is taken), the erase
  leaves a tombstone in slot 15, and the second insert of 1921 takes it (the defect of C1).
  \<^verbatim>\<open>at(1921)\<close> is then \<^verbatim>\<open>"e"\<close> and the size is 4. \<^verbatim>\<open>growAndRehash\<close> moves the slots in
  index order: slot 0 first, with the older value, and drops the slot 15 as a duplicate.
  After the growth \<^verbatim>\<open>at(1921)\<close> is \<^verbatim>\<open>"b"\<close> and the size is 3.
\<close>

theorem growth_changes_value_and_size:
  "and_then (run hash_id (=) HashMap_default
       [Insert 1920 ''a'', Insert 1921 ''b'', Insert 2 ''c'', Insert 3 ''d'', Erase 1920,
        Insert 1921 ''e''])
     (\<lambda>t. and_then (at_key hash_id (=) t 1921)
       (\<lambda>v. and_then (reserve hash_id (=) t 32)
         (\<lambda>t'. and_then (at_key hash_id (=) t' 1921)
           (\<lambda>v'. returns (v, size_of t, capacity_f t, v', size_of t', capacity_f t')))))
   = returns (''e'', 4, 16, ''b'', 3, 32)"
  by code_simp

text \<open>
  C4. The claim: an insert of a key that is present inserts nothing, reports it through
  an absent result, leaves the stored value and the size as they are, also with
  tombstones on the key's probe path.
  The code at the input of C1: key 1 is present with the value \<^verbatim>\<open>"b"\<close> and the size is
  3; \<^verbatim>\<open>insert({1, "e"})\<close> returns the position 0, which is not \<^verbatim>\<open>end()\<close> (16), the size
  becomes 4, and \<^verbatim>\<open>at(1)\<close> is \<^verbatim>\<open>"e"\<close>.
\<close>

theorem insert_of_present_key_inserts:
  "and_then (run hash_id (=) HashMap_default
       [Insert 0 ''a'', Insert 1 ''b'', Insert 2 ''c'', Insert 3 ''d'', Erase 0])
     (\<lambda>t. and_then (at_key hash_id (=) t 1)
       (\<lambda>v. and_then (insert_pair hash_id (=) t 1 ''e'')
         (\<lambda>r. and_then (at_key hash_id (=) (snd r) 1)
           (\<lambda>v'. returns (v, size_of t, fst r, end_it (snd r), size_of (snd r), v')))))
   = returns (''b'', 3, Some 0, 16, 4, ''e'')"
  by code_simp

text \<open>
  C5. The claim: after every insert, \<open>size / capacity < 0.875\<close>, the table growing
  whenever the load factor with one element more would reach \<open>0.875\<close>.
  The code on the default table holding 13 keys: \<^verbatim>\<open>needToGrowForInsert\<close> compares the
  load factor as it is, \<open>13 / 16\<close>, and answers no (the simpler variant of the table
  compares \<open>14 / 16\<close> and answers yes); the insert of a fourteenth key leaves size 14 in
  capacity 16, a load factor that is not below \<open>0.875\<close>.
  And on a table of capacity 4 (the table of the test \<^verbatim>\<open>AutoGrow\<close>): the inserts of the
  keys 1 to 4 leave size 4 in capacity 4, the load factor 1.
\<close>

theorem insert_reaches_max_load_factor:
  "and_then (run hash_id (=) HashMap_default (map (\<lambda>i. Insert (128 * i) ''v'') [0 ..< 13]))
     (\<lambda>t. and_then (insert_pair hash_id (=) t 1664 ''v'')
       (\<lambda>r. returns (size_of t, capacity_f t, needToGrowForInsert t,
                needToGrowForInsert_simpler_variant t,
                size_of (snd r), capacity_f (snd r),
                float_ge (loadFactor (snd r)) MaxLoadFactor)))
   = returns (13, 16, False, True, 14, 16, True)
   \<and> and_then (run hash_id (=) (HashMap_init 4)
         [Insert 1 ''123'', Insert 2 ''123'', Insert 3 ''123'', Insert 4 ''123''])
       (\<lambda>t. returns (size_of t, capacity_f t, loadFactor t))
     = returns (4, 4, Finite 1)"
  by code_simp

text \<open>
  C6. The claim: after every erase that removed an element, also one that removed the
  last live element, \<open>deletedCount < size * 0.5\<close>.
  The claim fails where the erase leaves the table empty: the size is 0, and no count is
  below 0. At \<^verbatim>\<open>insert(5); erase(5)\<close> the erase returns true and leaves size 0 and
  tombstone count 1.
\<close>

theorem erase_last_element_breaks_tombstone_bound:
  "and_then (run hash_id (=) HashMap_default [Insert 5 ''a''])
     (\<lambda>t. and_then (erase hash_id (=) t 5)
       (\<lambda>r. returns (fst r, size_of (snd r), deletedCount_f (snd r),
                of_nat (deletedCount_f (snd r)) < of_nat (size_of (snd r)) * MaxDeletedLoadFactor)))
   = returns (True, 0, 1, False)"
  by code_simp

text \<open>
  C6, as amended: after every erase (by key or by position) that returns true and leaves
  at least one live element, \<open>deletedCount < size * 0.5\<close>. Either the tombstone count
  was below the threshold, or the table was rebuilt and its count is 0.
\<close>

theorem erase_tombstone_bound:
  assumes "erase hasher eq t key = returns (True, t') \<or> erase_it hasher eq t it = returns (True, t')"
    and "size_of t' \<noteq> 0"
  shows "of_nat (deletedCount_f t') < of_nat (size_of t') * MaxDeletedLoadFactor"
proof -
  from assms(1) obtain it' where "erase_it hasher eq t it' = Some (Inr (True, t'))"
    unfolding returns_def using erase_is_erase_it[of hasher eq t key "(True, t')"] by blast
  from erase_it_tombstone_bound[OF this] assms(2) show ?thesis
    by (simp add: size_of_def)
qed

text \<open>
  The theorem at the table holding the keys 0, 1 and 2, from which key 0 is erased: one
  tombstone against two live elements reaches the threshold, the table is rebuilt, and
  the erase leaves the two other keys and no tombstone count.
\<close>

theorem erase_tombstone_bound_witness:
  "run hash_id (=) HashMap_default [Insert 0 ''zero'', Insert 1 ''abc'', Insert 2 ''def'']
     = returns three_entries
   \<and> erase hash_id (=) three_entries 0 = returns (True, two_entries)
   \<and> size_of two_entries \<noteq> 0
   \<and> (of_nat (deletedCount_f two_entries) :: rat) < of_nat (size_of two_entries) * MaxDeletedLoadFactor"
proof -
  have r: "run hash_id (=) HashMap_default [Insert 0 ''zero'', Insert 1 ''abc'', Insert 2 ''def'']
     = returns three_entries"
    by code_simp
  have e: "erase hash_id (=) three_entries 0 = returns (True, two_entries)"
    by code_simp
  have n: "size_of two_entries \<noteq> 0"
    by (simp add: size_of_def two_entries_def)
  from erase_tombstone_bound[of hash_id "(=)" three_entries 0 two_entries, OF disjI1 [OF e] n] r e n
  show ?thesis by blast
qed

text \<open>
  C7. The claim: \<open>size + deletedCount \<le> capacity\<close> after every public operation, an
  insert that takes a tombstone accounting for it.
  The code on the default table holding 14 keys, after \<^verbatim>\<open>erase\<close> of three of them and
  \<^verbatim>\<open>insert\<close> of three new keys of the same buckets: the three erases count three
  tombstones (fewer than half of 11, so the table is not rebuilt), the three inserts take
  the three tombstones and leave the count at 3. No metadata byte is \<open>Deleted\<close>, the
  size is 14, and \<open>14 + 3\<close> exceeds the capacity 16.
\<close>

theorem tombstone_count_survives_reuse:
  "and_then (run hash_id (=) HashMap_default
       (map (\<lambda>i. Insert (128 * i) ''v'') [0 ..< 14]
        @ [Erase 0, Erase 128, Erase 256, Insert 1 ''w'', Insert 129 ''w'', Insert 257 ''w'']))
     (\<lambda>t. returns (size_of t, deletedCount_f t, capacity_f t,
              length (filter (\<lambda>m. m = Deleted) (metadata_f t)),
              size_of t + deletedCount_f t \<le> capacity_f t))
   = returns (14, 3, 16, 0, False)"
  by code_simp

text \<open>
  C8. The claim: where a key is live, \<^verbatim>\<open>erase(key)\<close> followed by
  \<^verbatim>\<open>insert(key, newValue)\<close> succeeds and \<^verbatim>\<open>find(key)\<close> then reports the new value; and
  from the empty table, insert 5 with \<^verbatim>\<open>"a"\<close>, erase 5, insert 5 with \<^verbatim>\<open>"b"\<close> gives
  \<^verbatim>\<open>"b"\<close> at key 5 and size 1.
  The second part holds on the code (the second equation below). The first fails in the
  state C1 reaches, where key 1 is live in the slots 0 and 1: \<^verbatim>\<open>erase(1)\<close> removes
  slot 0 and returns true, the rebuild it triggers keeps the other slot of key 1,
  \<^verbatim>\<open>insert({1, "f"})\<close> finds the key present and returns \<^verbatim>\<open>end()\<close> (16), and \<^verbatim>\<open>at(1)\<close>
  is the old \<^verbatim>\<open>"b"\<close>.
\<close>

theorem erase_then_insert_keeps_old_value:
  "and_then (run hash_id (=) HashMap_default
       [Insert 0 ''a'', Insert 1 ''b'', Insert 2 ''c'', Insert 3 ''d'', Erase 0, Insert 1 ''e''])
     (\<lambda>t. and_then (at_key hash_id (=) t 1)
       (\<lambda>v. and_then (erase hash_id (=) t 1)
         (\<lambda>r. and_then (insert_pair hash_id (=) (snd r) 1 ''f'')
           (\<lambda>r2. and_then (at_key hash_id (=) (snd r2) 1)
             (\<lambda>v'. returns (v, fst r, fst r2, end_it (snd r2), v'))))))
   = returns (''e'', True, Some 16, 16, ''b'')
   \<and> and_then (run hash_id (=) HashMap_default [Insert 5 ''a'', Erase 5, Insert 5 ''b''])
        (\<lambda>t. and_then (at_key hash_id (=) t 5) (\<lambda>v. returns (v, size_of t)))
      = returns (''b'', 1)"
  by code_simp

text \<open>
  C9. The claim: \<^verbatim>\<open>at(key)\<close> returns the stored value exactly when the key is present
  and fails with \<open>KeyNotFound\<close> exactly when it is absent, and \<^verbatim>\<open>find\<close> and \<^verbatim>\<open>erase\<close>
  report an absent key by \<^verbatim>\<open>end()\<close> and by false.
  The code on a table that was moved from (the tests \<^verbatim>\<open>Move\<close> and \<^verbatim>\<open>MoveAssign\<close> call
  \<^verbatim>\<open>find\<close> and \<^verbatim>\<open>erase\<close> on one): its capacity is 0, and \<^verbatim>\<open>doFind\<close> starts with
  \<^verbatim>\<open>h1 % capacity_\<close>. No key is present, and \<^verbatim>\<open>at\<close>, \<^verbatim>\<open>find\<close> and \<^verbatim>\<open>erase\<close> all end in
  the division by zero instead of \<open>KeyNotFound\<close>, \<^verbatim>\<open>end()\<close> and false.
\<close>

theorem lookup_in_moved_from_table_divides_by_zero:
  "and_then (run hash_id (=) HashMap_default [Insert 1 ''abc'', Insert 2 ''def'', MoveFrom])
     (\<lambda>t. returns (capacity_f t, size_of t, live_slots t,
              at_key hash_id (=) t 1, find_key hash_id (=) t 1,
              and_then (erase hash_id (=) t 1) (\<lambda>r. returns (fst r))))
   = returns (0, 0, [], fails DivideByZero, fails DivideByZero, fails DivideByZero)"
  by code_simp


text \<open>
  C10. After a move (by construction or by assignment) the source has capacity 0, size 0
  and tombstone count 0. An insert on it behaves as on a table constructed with capacity
  0: it finds that the table must grow, grows from zero to \<open>DefaultInitialCapacity\<close>
  (16), places the pair, and returns a position that is not \<^verbatim>\<open>end()\<close>; afterwards
  \<^verbatim>\<open>find\<close> reports that position and \<^verbatim>\<open>at\<close> the inserted value. This holds for every
  table moved from, every hash function and every key the equality predicate holds
  equal to itself.
\<close>

theorem moved_from_insert:
  fixes hasher :: "'k \<Rightarrow> 64 word" and t :: "('k, 'v) HashMap"
  assumes "eq key key"
  shows "snd (move_construct t) = moved_from t \<and> snd (move_assign this t) = moved_from t
       \<and> capacity_f (moved_from t) = 0 \<and> size_of (moved_from t) = 0
       \<and> deletedCount_f (moved_from t) = 0
       \<and> needToGrowForInsert (moved_from t)
       \<and> growAndRehash hasher eq (moved_from t) = returns (HashMap_init DefaultInitialCapacity)
       \<and> insert_pair hasher eq (moved_from t) key v = insert_pair hasher eq (HashMap_init 0) key v
       \<and> (\<exists>it t'. insert_pair hasher eq (moved_from t) key v = returns (Some it, t')
             \<and> it \<noteq> end_it t'
             \<and> capacity_f t' = 16 \<and> size_of t' = 1 \<and> deletedCount_f t' = 0
             \<and> find_key hasher eq t' key = returns it
             \<and> at_key hasher eq t' key = returns v)"
proof -
  let ?s = "\<lparr>slot_key = key, slot_value = v\<rparr>"
  let ?idex = "unat (H1 (hasher key)) mod 16"
  let ?t' = "\<lparr>capacity_f = 16, size_f = 1,
        metadata_f = (replicate 16 Empty)[?idex := H2 (hasher key)],
        slots_f = \<lparr>vec_size = 16, vec_data = (replicate 16 None)[?idex := Some ?s]\<rparr>,
        deletedCount_f = 0\<rparr> :: ('k, 'v) HashMap"
  have z: "capacity_f (moved_from t) = 0" "size_f (moved_from t) = 0"
    "deletedCount_f (moved_from t) = 0"
    by (simp_all add: moved_from_def)
  have z0: "capacity_f (HashMap_init 0 :: ('k, 'v) HashMap) = 0"
    "size_f (HashMap_init 0 :: ('k, 'v) HashMap) = 0"
    by (simp_all add: HashMap_init_def)
  have ins: "insertUnchecked hasher eq (HashMap_init 16) ?s = returns (Some ?idex, ?t')"
    using insertUnchecked_fresh[of 16 hasher eq ?s] by simp
  have ip: "insert_pair hasher eq u key v = returns (Some ?idex, ?t')"
    if "capacity_f u = 0" "size_f u = 0" for u :: "('k, 'v) HashMap"
    using that ins
    by (simp add: insert_pair_def needToGrowForInsert_zero growAndRehash_from_zero
        DefaultInitialCapacity_def and_then_def returns_def iteratorAt_def)
  have fnd: "doFind hasher eq ?t' key = returns (Some ?idex)"
    using doFind_after_fresh_insert[of 16 eq ?s hasher] assms by simp
  have lt: "?idex < 16" by simp
  have "find_key hasher eq ?t' key = returns ?idex"
    unfolding find_key_def fnd by (simp add: and_then_def returns_def iteratorAt_def)
  moreover have "at_key hasher eq ?t' key = returns v"
    unfolding at_key_def fnd using lt by (simp add: and_then_def returns_def vec_at_def)
  moreover have "?idex \<noteq> end_it ?t'"
    using lt by (simp add: end_it_def)
  ultimately have ex: "\<exists>it t'. insert_pair hasher eq (moved_from t) key v = returns (Some it, t')
             \<and> it \<noteq> end_it t'
             \<and> capacity_f t' = 16 \<and> size_of t' = 1 \<and> deletedCount_f t' = 0
             \<and> find_key hasher eq t' key = returns it
             \<and> at_key hasher eq t' key = returns v"
    using ip[OF z(1,2)] by (intro exI[of _ ?idex] exI[of _ ?t']) (simp add: size_of_def)
  have same: "insert_pair hasher eq (moved_from t) key v = insert_pair hasher eq (HashMap_init 0) key v"
    using ip[OF z(1,2)] ip[OF z0] by simp
  show ?thesis
    using z ex same needToGrowForInsert_zero[OF z(1,2)] growAndRehash_from_zero[OF z(1,2)]
    by (simp add: move_construct_def move_assign_def size_of_def)
qed

text \<open>
  The theorem at a table that holds two entries when it is moved from, with key 5
  inserted into the source afterwards.
\<close>

theorem moved_from_insert_witness:
  "(5::nat) = 5
   \<and> run hash_id (=) HashMap_default [Insert 1 ''abc'', Insert 2 ''def'']
       = returns two_entries
   \<and> (\<exists>it t'. insert_pair hash_id (=) (moved_from two_entries) 5 ''hello'' = returns (Some it, t')
         \<and> it \<noteq> end_it t'
         \<and> capacity_f t' = 16 \<and> size_of t' = 1 \<and> deletedCount_f t' = 0
         \<and> find_key hash_id (=) t' 5 = returns it
         \<and> at_key hash_id (=) t' 5 = returns ''hello'')"
proof -
  have k: "(5::nat) = 5" by simp
  have r: "run hash_id (=) HashMap_default [Insert 1 ''abc'', Insert 2 ''def'']
       = returns two_entries"
    by code_simp
  from moved_from_insert[where eq = "(=)" and hasher = hash_id and t = two_entries
      and v = "''hello''", OF k] k r
  show ?thesis by blast
qed

end
